theory Spec2Isabelle
  imports Main "HOL-Library.AList"
begin

section \<open>Protocol values\<close>

text \<open>
  Modelled from the spec: the declaration of the struct \<open>Value\<close> lives in the codec file,
  which is not among the sources. Its fields are the ones the handlers read and write
  (\<open>typ\<close>, written \<open>typ'\<close> here, \<open>str\<close>, \<open>num\<close>, \<open>bulk\<close>, \<open>array\<close>); a field left out of a Go struct literal
  has its zero value (empty string, 0, empty slice). Go's \<open>int\<close> is taken as 64 bits wide
  and modelled as a HOL integer, with the wrap-around written out where the code adds or
  subtracts.
\<close>

datatype Value = Value (typ': string) (str: string) (num: int) (bulk: string) (array: "Value list")

abbreviation simple_string :: "string \<Rightarrow> Value" where
  "simple_string s \<equiv> Value ''string'' s 0 [] []"

abbreviation error_value :: "string \<Rightarrow> Value" where
  "error_value m \<equiv> Value ''error'' m 0 [] []"

abbreviation integer_value :: "int \<Rightarrow> Value" where
  "integer_value n \<equiv> Value ''integer'' [] n [] []"

abbreviation bulk_value :: "string \<Rightarrow> Value" where
  "bulk_value b \<equiv> Value ''bulk'' [] 0 b []"

abbreviation array_value :: "Value list \<Rightarrow> Value" where
  "array_value vs \<equiv> Value ''array'' [] 0 [] vs"

abbreviation null_value :: Value where
  "null_value \<equiv> Value ''null'' [] 0 [] []"

section \<open>Library functions the handlers call\<close>

text \<open>
  \<open>strconv.ParseInt(s, 10, 64)\<close>, \<open>strconv.Atoi\<close> and \<open>strconv.Itoa\<close> of Go's standard
  library, following their documented behaviour: an optional sign, then one or more decimal
  digits; a syntax error for anything else, a range error when the number does not fit
  64 bits. Strings are byte sequences.
\<close>

definition int64 :: "int \<Rightarrow> bool" where
  "int64 x = (- (2 ^ 63) \<le> x \<and> x < 2 ^ 63)"

definition wrap64 :: "int \<Rightarrow> int" where
  "wrap64 x = (x + 2 ^ 63) mod 2 ^ 64 - 2 ^ 63"

datatype NumError = ErrSyntax | ErrRange

definition is_digit :: "char \<Rightarrow> bool" where
  "is_digit c = (48 \<le> (of_char c :: nat) \<and> (of_char c :: nat) \<le> 57)"

definition digit_val :: "char \<Rightarrow> nat" where
  "digit_val c = of_char c - 48"

fun ParseUint_loop :: "nat \<Rightarrow> string \<Rightarrow> NumError + nat" where
  "ParseUint_loop n [] = Inr n"
| "ParseUint_loop n (c # cs) =
     (if \<not> is_digit c then Inl ErrSyntax
      else if 2 ^ 64 \<le> n * 10 + digit_val c then Inl ErrRange
      else ParseUint_loop (n * 10 + digit_val c) cs)"

definition ParseUint :: "string \<Rightarrow> NumError + nat" where
  "ParseUint s = (if s = [] then Inl ErrSyntax else ParseUint_loop 0 s)"

definition ParseInt :: "string \<Rightarrow> NumError + int" where
  "ParseInt s0 =
     (if s0 = [] then Inl ErrSyntax
      else
        let neg = (hd s0 = CHR ''-'');
            s = (if hd s0 = CHR ''+'' \<or> hd s0 = CHR ''-'' then tl s0 else s0)
        in case ParseUint s of
             Inl e \<Rightarrow> Inl e
           | Inr un \<Rightarrow>
               if \<not> neg \<and> 2 ^ 63 \<le> un then Inl ErrRange
               else if neg \<and> 2 ^ 63 < un then Inl ErrRange
               else Inr (if neg then - int un else int un))"

definition Atoi :: "string \<Rightarrow> NumError + int" where
  "Atoi s = ParseInt s"

definition digit_char :: "nat \<Rightarrow> char" where
  "digit_char d = ''0123456789'' ! d"

fun dec_digits :: "nat \<Rightarrow> string" where
  "dec_digits n =
     (if n < 10 then [digit_char n] else dec_digits (n div 10) @ [digit_char (n mod 10)])"

declare dec_digits.simps [simp del]

definition Itoa :: "int \<Rightarrow> string" where
  "Itoa n = (if n < 0 then CHR ''-'' # dec_digits (nat (- n)) else dec_digits (nat n))"

text \<open>
  \<open>strings.ToLower\<close> on ASCII letters; every other byte is kept. \<open>strings.ToUpper\<close>
  knows all of Unicode, so the loops below take it as the parameter \<open>up\<close>;
  \<open>ToUpper_ascii\<close> is what it returns on a string of ASCII bytes.
\<close>

definition lower_char :: "char \<Rightarrow> char" where
  "lower_char c =
     (if 65 \<le> (of_char c :: nat) \<and> (of_char c :: nat) \<le> 90
      then ''abcdefghijklmnopqrstuvwxyz'' ! (of_char c - 65) else c)"

definition upper_char :: "char \<Rightarrow> char" where
  "upper_char c =
     (if 97 \<le> (of_char c :: nat) \<and> (of_char c :: nat) \<le> 122
      then ''ABCDEFGHIJKLMNOPQRSTUVWXYZ'' ! (of_char c - 97) else c)"

definition ToLower :: "string \<Rightarrow> string" where
  "ToLower s = map lower_char s"

definition ToUpper_ascii :: "string \<Rightarrow> string" where
  "ToUpper_ascii s = map upper_char s"

section \<open>The keyspace\<close>

text \<open>
  The three package-level maps \<open>SETs\<close>, \<open>HSETs\<close> and \<open>Expirations\<close>. A Go map is an
  association list here: a lookup is \<open>map_of\<close>, an assignment \<open>AList.update\<close>, a
  \<open>delete\<close> is \<open>AList.delete\<close>, \<open>len\<close> is the length of the list (the keys of a list
  built by these operations are distinct). Go iterates over a map in no fixed order; the
  list has one, and where a result shows the order of an iteration (\<open>hgetall\<close>) the
  order is also made a parameter (\<open>hgetall_ranged\<close>). Every handler takes the keyspace and returns it with its result; a
  handler that reads the clock takes \<open>time.Now().Unix()\<close> as the argument \<open>now\<close>.
\<close>

record keyspace =
  SETs :: "(string \<times> string) list"
  HSETs :: "(string \<times> (string \<times> string) list) list"
  Expirations :: "(string \<times> int) list"

definition empty_keyspace :: keyspace where
  "empty_keyspace = \<lparr>SETs = [], HSETs = [], Expirations = []\<rparr>"

section \<open>Command handlers\<close>

definition ping :: "Value list \<Rightarrow> Value" where
  "ping args =
     (if length args = 0 then simple_string ''PONG''
      else simple_string (bulk (args ! 0)))"

definition checkAndDeleteIfExpired :: "keyspace \<Rightarrow> int \<Rightarrow> string \<Rightarrow> keyspace \<times> string \<times> bool" where
  "checkAndDeleteIfExpired s now key =
     (let e = map_of (Expirations s) key;
          exists = (e \<noteq> None)
      in if (case e of Some expireAt \<Rightarrow> now > expireAt | None \<Rightarrow> False) then
           (s\<lparr>SETs := AList.delete key (SETs s),
              HSETs := AList.delete key (HSETs s),
              Expirations := AList.delete key (Expirations s)\<rparr>, [], True)
         else case map_of (SETs s) key of
                Some v \<Rightarrow> (s, v, False)
              | None \<Rightarrow>
                  (case map_of (HSETs s) key of
                     Some _ \<Rightarrow> (s, [], False)
                   | None \<Rightarrow> (s, [], exists)))"

definition set_handler :: "keyspace \<Rightarrow> int \<Rightarrow> Value list \<Rightarrow> keyspace \<times> Value" where
  "set_handler s now args =
     (if length args < 2 then
        (s, error_value ''ERR wrong number of arguments for 'set' command'')
      else
        let key = bulk (args ! 0);
            val = bulk (args ! 1);
            opt =
              (if length args = 4 then
                 (if ToLower (bulk (args ! 2)) \<noteq> ''ex'' then
                    Inl (error_value ''ERR syntax error'')
                  else case ParseInt (bulk (args ! 3)) of
                         Inl err \<Rightarrow> Inl (error_value ''ERR invalid expire time'')
                       | Inr secs \<Rightarrow>
                           if secs \<le> 0 then Inl (error_value ''ERR invalid expire time'')
                           else Inr secs)
               else if length args \<noteq> 2 then Inl (error_value ''ERR syntax error'')
               else Inr 0)
        in case opt of
             Inl e \<Rightarrow> (s, e)
           | Inr expireSeconds \<Rightarrow>
               let s1 = s\<lparr>SETs := AList.update key val (SETs s)\<rparr> in
               if expireSeconds > 0 then
                 (s1\<lparr>Expirations :=
                       AList.update key (wrap64 (now + expireSeconds)) (Expirations s1)\<rparr>,
                  simple_string ''OK'')
               else
                 (s1\<lparr>Expirations := AList.delete key (Expirations s1)\<rparr>,
                  simple_string ''OK''))"

definition get :: "keyspace \<Rightarrow> int \<Rightarrow> Value list \<Rightarrow> keyspace \<times> Value" where
  "get s now args =
     (if length args \<noteq> 1 then
        (s, error_value ''ERR wrong number of arguments for 'get' command'')
      else
        let key = bulk (args ! 0) in
        case checkAndDeleteIfExpired s now key of
          (s', val, expired) \<Rightarrow>
            if expired then (s', null_value) else (s', bulk_value val))"

definition hset :: "keyspace \<Rightarrow> Value list \<Rightarrow> keyspace \<times> Value" where
  "hset s args =
     (if length args \<noteq> 3 then
        (s, error_value ''ERR wrong number of arguments for 'hset' command'')
      else
        let hash = bulk (args ! 0);
            key = bulk (args ! 1);
            val = bulk (args ! 2);
            hashMap = (case map_of (HSETs s) hash of None \<Rightarrow> [] | Some m \<Rightarrow> m)
        in (s\<lparr>HSETs := AList.update hash (AList.update key val hashMap) (HSETs s)\<rparr>,
            simple_string ''OK''))"

definition hget :: "keyspace \<Rightarrow> Value list \<Rightarrow> keyspace \<times> Value" where
  "hget s args =
     (if length args \<noteq> 2 then
        (s, error_value ''ERR wrong number of arguments for 'hget' command'')
      else
        let hash = bulk (args ! 0);
            key = bulk (args ! 1)
        in case map_of (HSETs s) hash of
             None \<Rightarrow> (s, null_value)
           | Some hashMap \<Rightarrow>
               (case map_of hashMap key of
                  None \<Rightarrow> (s, null_value)
                | Some v \<Rightarrow> (s, bulk_value v)))"

definition hgetall :: "keyspace \<Rightarrow> Value list \<Rightarrow> keyspace \<times> Value" where
  "hgetall s args =
     (if length args \<noteq> 1 then
        (s, error_value ''ERR wrong number of arguments for 'hgetall' command'')
      else
        let hash = bulk (args ! 0) in
        case map_of (HSETs s) hash of
          None \<Rightarrow> (s, null_value)
        | Some hashMap \<Rightarrow>
            (s, array_value (concat (map (\<lambda>(k, v). [bulk_value k, bulk_value v]) hashMap))))"

text \<open>
  The loop \<open>for k, v := range hashMap\<close> of \<open>hgetall\<close> visits every field once, in an
  order the Go runtime picks anew each time the loop runs; \<open>hgetall\<close> above is the run
  that follows the list. \<open>hgetall_ranged\<close> has the order as a parameter:
  \<open>visit hashMap\<close> is the fields in the order in which this run visits them, some
  permutation of the fields.
\<close>

definition hgetall_ranged ::
  "((string \<times> string) list \<Rightarrow> (string \<times> string) list) \<Rightarrow> keyspace \<Rightarrow> Value list
     \<Rightarrow> keyspace \<times> Value" where
  "hgetall_ranged visit s args =
     (if length args \<noteq> 1 then
        (s, error_value ''ERR wrong number of arguments for 'hgetall' command'')
      else
        let hash = bulk (args ! 0) in
        case map_of (HSETs s) hash of
          None \<Rightarrow> (s, null_value)
        | Some hashMap \<Rightarrow>
            (s, array_value
                  (concat (map (\<lambda>(k, v). [bulk_value k, bulk_value v]) (visit hashMap)))))"

definition hdel :: "keyspace \<Rightarrow> Value list \<Rightarrow> keyspace \<times> Value" where
  "hdel s args =
     (if length args \<noteq> 2 then
        (s, error_value ''ERR wrong number of arguments for 'hdel' command'')
      else
        let hash = bulk (args ! 0);
            key = bulk (args ! 1)
        in case map_of (HSETs s) hash of
             None \<Rightarrow> (s, simple_string ''OK'')
           | Some hashMap \<Rightarrow>
               let hashMap' = AList.delete key hashMap in
               if length hashMap' = 0 then
                 (s\<lparr>HSETs := AList.delete hash (HSETs s)\<rparr>, simple_string ''OK'')
               else
                 (s\<lparr>HSETs := AList.update hash hashMap' (HSETs s)\<rparr>, simple_string ''OK''))"

definition hlen :: "keyspace \<Rightarrow> Value list \<Rightarrow> keyspace \<times> Value" where
  "hlen s args =
     (if length args \<noteq> 1 then
        (s, error_value ''ERR wrong number of arguments for 'hlen' command'')
      else
        let hash = bulk (args ! 0) in
        case map_of (HSETs s) hash of
          None \<Rightarrow> (s, integer_value 0)
        | Some hashMap \<Rightarrow> (s, integer_value (int (length hashMap))))"

definition flushall :: "keyspace \<Rightarrow> Value list \<Rightarrow> keyspace \<times> Value" where
  "flushall s args =
     (s\<lparr>SETs := [], HSETs := [], Expirations := []\<rparr>, simple_string ''OK'')"

definition del :: "keyspace \<Rightarrow> Value list \<Rightarrow> keyspace \<times> Value" where
  "del s args =
     (if length args \<noteq> 1 then
        (s, error_value ''ERR wrong number of arguments for 'del' command'')
      else
        let key = bulk (args ! 0) in
        (s\<lparr>SETs := AList.delete key (SETs s), HSETs := AList.delete key (HSETs s)\<rparr>,
         simple_string ''OK''))"

definition info :: "keyspace \<Rightarrow> Value list \<Rightarrow> keyspace \<times> Value" where
  "info s args =
     (if length args \<noteq> 0 then
        (s, error_value ''ERR wrong number of arguments for 'info' command'')
      else
        let totalKeys = int (length (SETs s));
            totalHashes = int (length (HSETs s));
            totalFields = int (sum_list (map (\<lambda>(h, m). length m) (HSETs s)));
            infoStr = ''# Server Info'' @ [CHR 0x0A] @
                      ''keys:'' @ Itoa totalKeys @ [CHR 0x0A] @
                      ''hashes:'' @ Itoa totalHashes @ [CHR 0x0A] @
                      ''fields:'' @ Itoa totalFields @ [CHR 0x0A]
        in (s, bulk_value infoStr))"

definition incr :: "keyspace \<Rightarrow> Value list \<Rightarrow> keyspace \<times> Value" where
  "incr s args =
     (if length args \<noteq> 1 then
        (s, error_value ''ERR wrong number of arguments for 'incr' command'')
      else
        let key = bulk (args ! 0) in
        case map_of (SETs s) key of
          None \<Rightarrow> (s\<lparr>SETs := AList.update key ''1'' (SETs s)\<rparr>, integer_value 1)
        | Some val \<Rightarrow>
            (case Atoi val of
               Inl err \<Rightarrow> (s, error_value ''ERR value is not an integer'')
             | Inr n \<Rightarrow>
                 let n' = wrap64 (n + 1) in
                 (s\<lparr>SETs := AList.update key (Itoa n') (SETs s)\<rparr>, integer_value n')))"

definition decr :: "keyspace \<Rightarrow> Value list \<Rightarrow> keyspace \<times> Value" where
  "decr s args =
     (if length args \<noteq> 1 then
        (s, error_value ''ERR wrong number of arguments for 'decr' command'')
      else
        let key = bulk (args ! 0) in
        case map_of (SETs s) key of
          None \<Rightarrow> (s\<lparr>SETs := AList.update key ''0'' (SETs s)\<rparr>, integer_value 0)
        | Some val \<Rightarrow>
            (case Atoi val of
               Inl err \<Rightarrow> (s, error_value ''ERR value is not an integer'')
             | Inr n \<Rightarrow>
                 let n' = wrap64 (n - 1) in
                 (s\<lparr>SETs := AList.update key (Itoa n') (SETs s)\<rparr>, integer_value n')))"

definition expire :: "keyspace \<Rightarrow> int \<Rightarrow> Value list \<Rightarrow> keyspace \<times> Value" where
  "expire s now args =
     (if length args \<noteq> 2 then
        (s, error_value ''ERR wrong number of arguments for 'expire' command'')
      else
        let key = bulk (args ! 0) in
        case ParseInt (bulk (args ! 1)) of
          Inl err \<Rightarrow> (s, error_value ''ERR invalid expire time'')
        | Inr seconds \<Rightarrow>
            if seconds \<le> 0 then (s, error_value ''ERR invalid expire time'')
            else
              let existsSET = (map_of (SETs s) key \<noteq> None);
                  existsHSET = (map_of (HSETs s) key \<noteq> None)
              in if \<not> existsSET \<and> \<not> existsHSET then (s, integer_value 0)
                 else
                   (s\<lparr>Expirations :=
                        AList.update key (wrap64 (now + seconds)) (Expirations s)\<rparr>,
                    integer_value 1))"

definition ttl :: "keyspace \<Rightarrow> int \<Rightarrow> Value list \<Rightarrow> keyspace \<times> Value" where
  "ttl s now args =
     (if length args \<noteq> 1 then
        (s, error_value ''ERR wrong number of arguments for 'ttl' command'')
      else
        let key = bulk (args ! 0);
            e = map_of (Expirations s) key;
            existsSET = (map_of (SETs s) key \<noteq> None);
            existsHSET = (map_of (HSETs s) key \<noteq> None)
        in if \<not> existsSET \<and> \<not> existsHSET then (s, integer_value (- 2))
           else case e of
                  None \<Rightarrow> (s, integer_value (- 1))
                | Some expireAt \<Rightarrow>
                    let remaining = wrap64 (expireAt - now) in
                    if remaining < 0 then (s, integer_value (- 2))
                    else (s, integer_value remaining))"

definition persist :: "keyspace \<Rightarrow> Value list \<Rightarrow> keyspace \<times> Value" where
  "persist s args =
     (if length args \<noteq> 1 then
        (s, error_value ''ERR wrong number of arguments for 'persist' command'')
      else
        let key = bulk (args ! 0);
            existsSET = (map_of (SETs s) key \<noteq> None);
            existsHSET = (map_of (HSETs s) key \<noteq> None)
        in if \<not> existsSET \<and> \<not> existsHSET then (s, integer_value 0)
           else if map_of (Expirations s) key = None then (s, integer_value 0)
           else (s\<lparr>Expirations := AList.delete key (Expirations s)\<rparr>, integer_value 1))"

section \<open>Dispatch and the persistence log\<close>

type_synonym handler = "keyspace \<Rightarrow> int \<Rightarrow> Value list \<Rightarrow> keyspace \<times> Value"

definition Handlers :: "string \<Rightarrow> handler option" where
  "Handlers = map_of
     [(''PING'', \<lambda>s now args. (s, ping args)),
      (''SET'', set_handler),
      (''GET'', get),
      (''HSET'', \<lambda>s now args. hset s args),
      (''HGET'', \<lambda>s now args. hget s args),
      (''HGETALL'', \<lambda>s now args. hgetall s args),
      (''HDEL'', \<lambda>s now args. hdel s args),
      (''HLEN'', \<lambda>s now args. hlen s args),
      (''FLUSHALL'', \<lambda>s now args. flushall s args),
      (''DEL'', \<lambda>s now args. del s args),
      (''INFO'', \<lambda>s now args. info s args),
      (''INCR'', \<lambda>s now args. incr s args),
      (''DECR'', \<lambda>s now args. decr s args),
      (''EXPIRE'', expire),
      (''TTL'', ttl),
      (''PERSIST'', \<lambda>s now args. persist s args)]"

text \<open>
  Modelled from the spec: the append-only file and its \<open>Write\<close> are not among the
  sources; the log is the list of the commands written, oldest first, and \<open>Write\<close>
  appends one command.
\<close>

definition aof_Write :: "Value list \<Rightarrow> Value \<Rightarrow> Value list" where
  "aof_Write log v = log @ [v]"

record server =
  store :: keyspace
  aof :: "Value list"

text \<open>
  One turn of the loop of \<open>handleConnection\<close> on a request already decoded: the new
  state and the reply written to the client. \<open>up\<close> is \<open>strings.ToUpper\<close>.
\<close>

definition handleConnection ::
  "(string \<Rightarrow> string) \<Rightarrow> server \<Rightarrow> int \<Rightarrow> Value \<Rightarrow> server \<times> Value" where
  "handleConnection up sv now v =
     (if typ' v \<noteq> ''array'' \<or> length (array v) = 0 then
        (sv, simple_string ''Invalid request'')
      else
        let command = up (bulk (array v ! 0));
            args = tl (array v)
        in case Handlers command of
             None \<Rightarrow> (sv, simple_string ''Unknown command'')
           | Some h \<Rightarrow>
               let log = (if command = ''SET'' \<or> command = ''HSET'' \<or> command = ''DEL'' \<or>
                             command = ''FLUSHALL'' \<or> command = ''HDEL'' \<or>
                             command = ''INCR'' \<or> command = ''DECR''
                          then aof_Write (aof sv) v else aof sv)
               in case h (store sv) now args of
                    (s', result) \<Rightarrow> (\<lparr>store = s', aof = log\<rparr>, result))"

text \<open>
  One turn of the loop of \<open>main\<close> in \<open>main.go\<close>. Its handler table belongs to
  package \<open>main\<close> and is not among the sources, so it is the parameter \<open>H\<close>, and which
  names it dispatches is not known. A malformed request gets no reply.
\<close>

definition main_loop ::
  "(string \<Rightarrow> string) \<Rightarrow> (string \<Rightarrow> handler option) \<Rightarrow> server \<Rightarrow> int \<Rightarrow> Value
     \<Rightarrow> server \<times> Value option" where
  "main_loop up H sv now v =
     (if typ' v \<noteq> ''array'' then (sv, None)
      else if length (array v) = 0 then (sv, None)
      else
        let command = up (bulk (array v ! 0));
            args = tl (array v)
        in case H command of
             None \<Rightarrow> (sv, Some (simple_string []))
           | Some h \<Rightarrow>
               let log = (if command = ''SET'' \<or> command = ''HSET'' \<or> command = ''DEL'' \<or>
                             command = ''FLUSHALL'' \<or> command = ''HDEL''
                          then aof_Write (aof sv) v else aof sv)
               in case h (store sv) now args of
                    (s', result) \<Rightarrow> (\<lparr>store = s', aof = log\<rparr>, Some result))"

text \<open>
  Modelled from the spec: reading the log back is in the file of the append-only log, not
  among the sources; it decodes the logged commands in order and calls on each the
  function \<open>StartServer\<close> gives it. That function looks the handler up and calls it; an
  unknown name is reported and skipped; it indexes the first element of the command
  unchecked, which panics on an empty array (\<open>None\<close>). Each logged command comes with the
  clock its handler reads.
\<close>

fun replay :: "(string \<Rightarrow> string) \<Rightarrow> keyspace \<Rightarrow> (int \<times> Value) list \<Rightarrow> keyspace option" where
  "replay up s [] = Some s"
| "replay up s ((now, v) # rest) =
     (if length (array v) = 0 then None
      else case Handlers (up (bulk (array v ! 0))) of
             None \<Rightarrow> replay up s rest
           | Some h \<Rightarrow> replay up (fst (h s now (tl (array v)))) rest)"

text \<open>
  A sequence of handler calls, each with its command name, the clock at the call and its
  arguments; a name outside the table calls nothing.
\<close>

fun run :: "keyspace \<Rightarrow> (string \<times> int \<times> Value list) list \<Rightarrow> keyspace" where
  "run s [] = s"
| "run s ((name, now, args) # calls) =
     (case Handlers name of
        None \<Rightarrow> run s calls
      | Some h \<Rightarrow> run (fst (h s now args)) calls)"

text \<open>
  What the specification calls a decimal integer, in its own words rather than the
  parser's: an optional sign followed by at least one decimal digit.
\<close>

definition decimal_integer :: "string \<Rightarrow> bool" where
  "decimal_integer v =
     (case v of
        [] \<Rightarrow> False
      | c # cs \<Rightarrow>
          if c = CHR ''+'' \<or> c = CHR ''-'' then cs \<noteq> [] \<and> list_all is_digit cs
          else list_all is_digit v)"

text \<open>
  The invariant of the hash store: no key is bound to a hash without fields.
\<close>

definition hashes_nonempty :: "keyspace \<Rightarrow> bool" where
  "hashes_nonempty s = list_all (\<lambda>(h, m). m \<noteq> []) (HSETs s)"

section \<open>Argument counts\<close>

text \<open>
  Thirteen of the fifteen handlers check the number of their arguments first and return
  an error value, with the keyspace as it was, when it is wrong. \<open>set\<close> accepts two or
  four arguments; \<open>ping\<close> and \<open>flushall\<close> have no such check.
\<close>

lemma arity_mismatch_is_error:
  "length args \<noteq> 2 \<Longrightarrow> length args \<noteq> 4 \<Longrightarrow>
     fst (set_handler s now args) = s \<and> typ' (snd (set_handler s now args)) = ''error''"
  "length args \<noteq> 1 \<Longrightarrow> fst (get s now args) = s \<and> typ' (snd (get s now args)) = ''error''"
  "length args \<noteq> 3 \<Longrightarrow> fst (hset s args) = s \<and> typ' (snd (hset s args)) = ''error''"
  "length args \<noteq> 2 \<Longrightarrow> fst (hget s args) = s \<and> typ' (snd (hget s args)) = ''error''"
  "length args \<noteq> 1 \<Longrightarrow> fst (hgetall s args) = s \<and> typ' (snd (hgetall s args)) = ''error''"
  "length args \<noteq> 2 \<Longrightarrow> fst (hdel s args) = s \<and> typ' (snd (hdel s args)) = ''error''"
  "length args \<noteq> 1 \<Longrightarrow> fst (hlen s args) = s \<and> typ' (snd (hlen s args)) = ''error''"
  "length args \<noteq> 1 \<Longrightarrow> fst (del s args) = s \<and> typ' (snd (del s args)) = ''error''"
  "length args \<noteq> 0 \<Longrightarrow> fst (info s args) = s \<and> typ' (snd (info s args)) = ''error''"
  "length args \<noteq> 1 \<Longrightarrow> fst (incr s args) = s \<and> typ' (snd (incr s args)) = ''error''"
  "length args \<noteq> 1 \<Longrightarrow> fst (decr s args) = s \<and> typ' (snd (decr s args)) = ''error''"
  "length args \<noteq> 2 \<Longrightarrow> fst (expire s now args) = s \<and> typ' (snd (expire s now args)) = ''error''"
  "length args \<noteq> 1 \<Longrightarrow> fst (ttl s now args) = s \<and> typ' (snd (ttl s now args)) = ''error''"
  "length args \<noteq> 1 \<Longrightarrow> fst (persist s args) = s \<and> typ' (snd (persist s args)) = ''error''"
  by (simp_all add: set_handler_def get_def hset_def hget_def hgetall_def hdel_def hlen_def
      del_def info_def incr_def decr_def expire_def ttl_def persist_def Let_def)

lemma ping_two_arguments:
  "ping [bulk_value ''a'', bulk_value ''b''] = simple_string ''a''"
  by (simp add: ping_def)

text \<open>
  C1. Every handler called with a number of arguments it does not accept returns an error
  value and leaves the three stores as they were, \<open>FLUSHALL\<close> with one or more arguments
  included. \<open>flushall\<close> never looks at its arguments: called with one argument on a
  keyspace holding a string, a hash and an expiry, it answers \<open>OK\<close> and empties all three
  stores.
\<close>

theorem flushall_with_argument_clears:
  "flushall \<lparr>SETs = [(''a'', ''1'')], HSETs = [(''h'', [(''f'', ''v'')])],
             Expirations = [(''a'', 1700000100)]\<rparr> [bulk_value ''x'']
   = (\<lparr>SETs = [], HSETs = [], Expirations = []\<rparr>, simple_string ''OK'')"
  by (simp add: flushall_def)

section \<open>Reading a string\<close>

lemma get_without_string_entry:
  assumes "map_of (SETs s) key = None"
    and "\<forall>e. map_of (Expirations s) key = Some e \<longrightarrow> \<not> now > e"
  shows "get s now [bulk_value key] =
           (s, if map_of (HSETs s) key = None \<and> map_of (Expirations s) key \<noteq> None
               then null_value else bulk_value [])"
  using assms
  by (auto simp add: get_def checkAndDeleteIfExpired_def Let_def split: option.splits)

text \<open>
  C2. \<open>GET\<close> of a key with no entry in the string store and no expiry in the past returns
  Null, not an empty Bulk, also for a key that is nowhere and for a key that is only in the
  hash store. On the code the answer is Null only when the key is in neither store and
  still has an expiry entry; a key that is nowhere, and a key that names a hash, both get
  the Bulk with the empty payload.
\<close>

theorem get_absent_key_is_empty_bulk:
  "get \<lparr>SETs = [], HSETs = [(''h'', [(''f'', ''v'')])], Expirations = []\<rparr> 1700000000
       [bulk_value ''nokey'']
     = (\<lparr>SETs = [], HSETs = [(''h'', [(''f'', ''v'')])], Expirations = []\<rparr>, bulk_value []) \<and>
   get \<lparr>SETs = [], HSETs = [(''h'', [(''f'', ''v'')])], Expirations = []\<rparr> 1700000000
       [bulk_value ''h'']
     = (\<lparr>SETs = [], HSETs = [(''h'', [(''f'', ''v'')])], Expirations = []\<rparr>, bulk_value [])"
  by (simp add: get_def checkAndDeleteIfExpired_def)

section \<open>Hashes\<close>

text \<open>
  C7. When \<open>h\<close> is not in the hash store, \<open>HSET h f v\<close> creates the hash \<open>h\<close> with the
  one field \<open>f\<close>, and \<open>HDEL h f\<close> after it leaves no entry for \<open>h\<close> in the hash store:
  \<open>HLEN h\<close> then returns Integer 0 and \<open>HGETALL h\<close> returns Null. \<open>HDEL\<close> with a hash and a field returns \<open>OK\<close> in every keyspace, whether
  or not the hash or the field is there.
\<close>

theorem hset_hdel_removes_hash:
  assumes "map_of (HSETs s) h = None"
  shows "(let s1 = fst (hset s [bulk_value h, bulk_value f, bulk_value v]);
              s2 = fst (hdel s1 [bulk_value h, bulk_value f])
          in map_of (HSETs s1) h = Some [(f, v)] \<and>
             snd (hlen s1 [bulk_value h]) = integer_value 1 \<and>
             map_of (HSETs s2) h = None \<and>
             snd (hlen s2 [bulk_value h]) = integer_value 0 \<and>
             snd (hgetall s2 [bulk_value h]) = null_value) \<and>
         snd (hdel t [bulk_value h', bulk_value f']) = simple_string ''OK''"
  using assms
  by (simp add: hset_def hdel_def hlen_def hgetall_def Let_def AList.update_conv'
      AList.delete_conv' split: option.splits)

theorem hset_hdel_removes_hash_witness:
  "map_of (HSETs empty_keyspace) ''h'' = None \<and>
   (let s1 = fst (hset empty_keyspace [bulk_value ''h'', bulk_value ''f'', bulk_value ''v'']);
        s2 = fst (hdel s1 [bulk_value ''h'', bulk_value ''f''])
    in map_of (HSETs s1) ''h'' = Some [(''f'', ''v'')] \<and>
       snd (hlen s1 [bulk_value ''h'']) = integer_value 1 \<and>
       map_of (HSETs s2) ''h'' = None \<and>
       snd (hlen s2 [bulk_value ''h'']) = integer_value 0 \<and>
       snd (hgetall s2 [bulk_value ''h'']) = null_value) \<and>
   snd (hdel empty_keyspace [bulk_value ''nohash'', bulk_value ''f'']) = simple_string ''OK''"
proof -
  have h: "map_of (HSETs empty_keyspace) ''h'' = None"
    by (simp add: empty_keyspace_def)
  from hset_hdel_removes_hash [OF h, of "''f''" "''v''" empty_keyspace "''nohash''" "''f''"] h
  show ?thesis by simp
qed

lemma hgetall_follows_the_list: "hgetall s args = hgetall_ranged (\<lambda>m. m) s args"
  by (simp add: hgetall_def hgetall_ranged_def)

text \<open>
  C9, as stated, fails for \<open>HGETALL\<close>: its result is not determined by the hash store
  alone. On one and the same keyspace, with a hash of two fields, the run of the loop that
  visits \<open>a\<close> first and the run that visits \<open>b\<close> first return different arrays.
\<close>

theorem hgetall_order_counterexample:
  "hgetall_ranged (\<lambda>m. m)
      \<lparr>SETs = [], HSETs = [(''h'', [(''a'', ''1''), (''b'', ''2'')])], Expirations = []\<rparr>
      [bulk_value ''h'']
     = (\<lparr>SETs = [], HSETs = [(''h'', [(''a'', ''1''), (''b'', ''2'')])], Expirations = []\<rparr>,
        array_value [bulk_value ''a'', bulk_value ''1'', bulk_value ''b'', bulk_value ''2'']) \<and>
   hgetall_ranged rev
      \<lparr>SETs = [], HSETs = [(''h'', [(''a'', ''1''), (''b'', ''2'')])], Expirations = []\<rparr>
      [bulk_value ''h'']
     = (\<lparr>SETs = [], HSETs = [(''h'', [(''a'', ''1''), (''b'', ''2'')])], Expirations = []\<rparr>,
        array_value [bulk_value ''b'', bulk_value ''2'', bulk_value ''a'', bulk_value ''1'']) \<and>
   array_value [bulk_value ''a'', bulk_value ''1'', bulk_value ''b'', bulk_value ''2'']
     \<noteq> array_value [bulk_value ''b'', bulk_value ''2'', bulk_value ''a'', bulk_value ''1'']"
  by (simp add: hgetall_ranged_def)

text \<open>
  C9, amended. \<open>HGET\<close> and \<open>HLEN\<close> read the hash store only, and \<open>HGETALL\<close> reads the hash
  store and follows the order in which its loop visits the fields: in two keyspaces with
  the same hash store, \<open>HGET\<close> and \<open>HLEN\<close> return the same result on the same arguments,
  and \<open>HGETALL\<close> returns the same array when its loop visits the fields in the same order,
  the fields and values of the hash in that order, whatever the expiration index and the
  string store hold. Each of the three leaves the keyspace as it was, so none of them
  deletes an expired key.
\<close>

theorem hash_reads_depend_on_hash_store_and_order:
  assumes "HSETs s1 = HSETs s2"
  shows "snd (hget s1 args) = snd (hget s2 args) \<and>
         snd (hlen s1 args) = snd (hlen s2 args) \<and>
         snd (hgetall_ranged visit s1 args) = snd (hgetall_ranged visit s2 args) \<and>
         (length args = 1 \<and> map_of (HSETs s1) (bulk (args ! 0)) = Some m \<longrightarrow>
            snd (hgetall_ranged visit s2 args) =
              array_value (concat (map (\<lambda>(k, v). [bulk_value k, bulk_value v]) (visit m)))) \<and>
         fst (hget s1 args) = s1 \<and> fst (hlen s1 args) = s1 \<and>
         fst (hgetall_ranged visit s1 args) = s1"
  using assms
  by (simp add: hget_def hgetall_ranged_def hlen_def Let_def split: option.splits)

theorem hash_reads_depend_on_hash_store_and_order_witness:
  "HSETs \<lparr>SETs = [], HSETs = [(''h'', [(''a'', ''1''), (''b'', ''2'')])],
          Expirations = [(''h'', 5)]\<rparr>
     = HSETs \<lparr>SETs = [(''k'', ''1'')], HSETs = [(''h'', [(''a'', ''1''), (''b'', ''2'')])],
              Expirations = []\<rparr> \<and>
   map_of (HSETs \<lparr>SETs = [], HSETs = [(''h'', [(''a'', ''1''), (''b'', ''2'')])],
                  Expirations = [(''h'', 5)]\<rparr>) ''h'' = Some [(''a'', ''1''), (''b'', ''2'')] \<and>
   snd (hlen \<lparr>SETs = [(''k'', ''1'')], HSETs = [(''h'', [(''a'', ''1''), (''b'', ''2'')])],
              Expirations = []\<rparr> [bulk_value ''h''])
     = snd (hlen \<lparr>SETs = [], HSETs = [(''h'', [(''a'', ''1''), (''b'', ''2'')])],
                  Expirations = [(''h'', 5)]\<rparr> [bulk_value ''h'']) \<and>
   snd (hgetall_ranged rev
          \<lparr>SETs = [(''k'', ''1'')], HSETs = [(''h'', [(''a'', ''1''), (''b'', ''2'')])],
             Expirations = []\<rparr> [bulk_value ''h''])
     = array_value [bulk_value ''b'', bulk_value ''2'', bulk_value ''a'', bulk_value ''1''] \<and>
   fst (hget \<lparr>SETs = [], HSETs = [(''h'', [(''a'', ''1''), (''b'', ''2'')])],
              Expirations = [(''h'', 5)]\<rparr> [bulk_value ''h'', bulk_value ''a''])
     = \<lparr>SETs = [], HSETs = [(''h'', [(''a'', ''1''), (''b'', ''2'')])],
         Expirations = [(''h'', 5)]\<rparr>"
proof -
  have h: "HSETs \<lparr>SETs = [], HSETs = [(''h'', [(''a'', ''1''), (''b'', ''2'')])],
          Expirations = [(''h'', 5)]\<rparr>
     = HSETs \<lparr>SETs = [(''k'', ''1'')], HSETs = [(''h'', [(''a'', ''1''), (''b'', ''2'')])],
              Expirations = []\<rparr>"
    by simp
  have m: "map_of (HSETs \<lparr>SETs = [], HSETs = [(''h'', [(''a'', ''1''), (''b'', ''2'')])],
                  Expirations = [(''h'', 5)]\<rparr>) ''h'' = Some [(''a'', ''1''), (''b'', ''2'')]"
    by simp
  from hash_reads_depend_on_hash_store_and_order
         [OF h, of "[bulk_value ''h'']" rev "[(''a'', ''1''), (''b'', ''2'')]"]
       hash_reads_depend_on_hash_store_and_order
         [OF h, of "[bulk_value ''h'', bulk_value ''a'']" rev "[]"] h m
  show ?thesis by simp
qed

section \<open>No hash without fields\<close>

lemma list_all_delete: "list_all P al \<Longrightarrow> list_all P (AList.delete k al)"
  by (simp add: AList.delete_eq list_all_iff)

lemma list_all_update: "list_all P al \<Longrightarrow> P (k, v) \<Longrightarrow> list_all P (AList.update k v al)"
  by (induction al) auto

lemma hashes_nonempty_handlers:
  assumes "hashes_nonempty s"
  shows "hashes_nonempty (fst (set_handler s now args))"
    and "hashes_nonempty (fst (get s now args))"
    and "hashes_nonempty (fst (hset s args))"
    and "hashes_nonempty (fst (hget s args))"
    and "hashes_nonempty (fst (hgetall s args))"
    and "hashes_nonempty (fst (hdel s args))"
    and "hashes_nonempty (fst (hlen s args))"
    and "hashes_nonempty (fst (flushall s args))"
    and "hashes_nonempty (fst (del s args))"
    and "hashes_nonempty (fst (info s args))"
    and "hashes_nonempty (fst (incr s args))"
    and "hashes_nonempty (fst (decr s args))"
    and "hashes_nonempty (fst (expire s now args))"
    and "hashes_nonempty (fst (ttl s now args))"
    and "hashes_nonempty (fst (persist s args))"
  using assms
  by (auto simp add: hashes_nonempty_def set_handler_def get_def checkAndDeleteIfExpired_def
      hset_def hget_def hgetall_def hdel_def hlen_def flushall_def del_def info_def incr_def
      decr_def expire_def ttl_def persist_def Let_def list_all_delete list_all_update
      split: option.splits sum.splits if_splits)

lemma Handlers_preserve_hashes_nonempty:
  assumes "Handlers name = Some h" and "hashes_nonempty s"
  shows "hashes_nonempty (fst (h s now args))"
  using assms hashes_nonempty_handlers [of s]
  by (auto simp add: Handlers_def split: if_splits)

lemma run_preserves_hashes_nonempty:
  "hashes_nonempty s \<Longrightarrow> hashes_nonempty (run s calls)"
proof (induction calls arbitrary: s)
  case Nil
  then show ?case by simp
next
  case (Cons c calls)
  obtain name now args where c: "c = (name, now, args)" by (cases c)
  show ?case
  proof (cases "Handlers name")
    case None
    with Cons c show ?thesis by simp
  next
    case (Some h)
    with Cons c Handlers_preserve_hashes_nonempty [OF Some Cons.prems] show ?thesis by simp
  qed
qed

lemma hashes_nonempty_lookup:
  "hashes_nonempty s \<Longrightarrow> map_of (HSETs s) h = Some m \<Longrightarrow> m \<noteq> []"
  by (auto simp add: hashes_nonempty_def list_all_iff dest: map_of_SomeD)

text \<open>
  C10. In every keyspace reached from the empty one by a sequence of handler calls, a hash
  that is in the hash store has at least one field; so \<open>HLEN\<close> on it returns a positive
  Integer and \<open>HGETALL\<close> on it returns an Array that is not empty.
\<close>

theorem reachable_hash_has_a_field:
  assumes "map_of (HSETs (run empty_keyspace calls)) h = Some m"
  shows "m \<noteq> [] \<and>
         typ' (snd (hlen (run empty_keyspace calls) [bulk_value h])) = ''integer'' \<and>
         0 < num (snd (hlen (run empty_keyspace calls) [bulk_value h])) \<and>
         typ' (snd (hgetall (run empty_keyspace calls) [bulk_value h])) = ''array'' \<and>
         array (snd (hgetall (run empty_keyspace calls) [bulk_value h])) \<noteq> []"
proof -
  have "hashes_nonempty empty_keyspace"
    by (simp add: hashes_nonempty_def empty_keyspace_def)
  then have "hashes_nonempty (run empty_keyspace calls)"
    by (rule run_preserves_hashes_nonempty)
  from this assms have m: "m \<noteq> []"
    by (rule hashes_nonempty_lookup)
  then obtain k v rest where "m = (k, v) # rest"
    by (cases m) auto
  with assms show ?thesis
    by (simp add: hlen_def hgetall_def)
qed

theorem reachable_hash_has_a_field_witness:
  "map_of (HSETs (run empty_keyspace
      [(''HSET'', 1700000000, [bulk_value ''h'', bulk_value ''f'', bulk_value ''v''])])) ''h''
     = Some [(''f'', ''v'')] \<and>
   snd (hlen (run empty_keyspace
      [(''HSET'', 1700000000, [bulk_value ''h'', bulk_value ''f'', bulk_value ''v''])])
      [bulk_value ''h'']) = integer_value 1 \<and>
   0 < num (snd (hlen (run empty_keyspace
      [(''HSET'', 1700000000, [bulk_value ''h'', bulk_value ''f'', bulk_value ''v''])])
      [bulk_value ''h'']))"
proof -
  have r: "run empty_keyspace
      [(''HSET'', 1700000000, [bulk_value ''h'', bulk_value ''f'', bulk_value ''v''])]
      = \<lparr>SETs = [], HSETs = [(''h'', [(''f'', ''v'')])], Expirations = []\<rparr>"
    by (simp add: Handlers_def hset_def empty_keyspace_def)
  have h: "map_of (HSETs (run empty_keyspace
      [(''HSET'', 1700000000, [bulk_value ''h'', bulk_value ''f'', bulk_value ''v''])])) ''h''
     = Some [(''f'', ''v'')]"
    unfolding r by simp
  from reachable_hash_has_a_field [OF h] h show ?thesis
    unfolding r by (simp add: hlen_def)
qed

section \<open>Decimal numerals\<close>

lemma wrap64_id: "int64 x \<Longrightarrow> wrap64 x = x"
  by (simp add: int64_def wrap64_def)

lemma digit_char_props:
  assumes "d < 10"
  shows "is_digit (digit_char d)" and "digit_val (digit_char d) = d"
    and "digit_char d \<noteq> CHR ''-''" and "digit_char d \<noteq> CHR ''+''"
proof -
  from assms have "d = 0 \<or> d = 1 \<or> d = 2 \<or> d = 3 \<or> d = 4 \<or> d = 5 \<or> d = 6 \<or> d = 7 \<or> d = 8 \<or> d = 9"
    by arith
  then show "is_digit (digit_char d)" and "digit_val (digit_char d) = d"
    and "digit_char d \<noteq> CHR ''-''" and "digit_char d \<noteq> CHR ''+''"
    by (auto simp add: digit_char_def is_digit_def digit_val_def)
qed

lemma ParseUint_loop_snoc:
  "ParseUint_loop n (xs @ [c]) =
     (case ParseUint_loop n xs of Inl e \<Rightarrow> Inl e | Inr k \<Rightarrow> ParseUint_loop k [c])"
  by (induction xs arbitrary: n) auto

lemma ParseUint_loop_dec_digits:
  "m < 2 ^ 64 \<Longrightarrow> ParseUint_loop 0 (dec_digits m) = Inr m"
proof (induction m rule: dec_digits.induct)
  case (1 m)
  show ?case
  proof (cases "m < 10")
    case True
    with "1.prems" show ?thesis
      by (simp add: dec_digits.simps [of m] digit_char_props)
  next
    case False
    have d: "m mod 10 < 10" by simp
    from "1.prems" have "m div 10 < 2 ^ 64" by (simp add: div_le_dividend less_imp_le_nat order_le_less_trans)
    with "1.IH" False have "ParseUint_loop 0 (dec_digits (m div 10)) = Inr (m div 10)"
      by simp
    with False "1.prems" show ?thesis
      by (simp add: dec_digits.simps [of m] ParseUint_loop_snoc digit_char_props [OF d])
  qed
qed

lemma dec_digits_hd:
  "dec_digits m \<noteq> [] \<and> hd (dec_digits m) \<noteq> CHR ''-'' \<and> hd (dec_digits m) \<noteq> CHR ''+''"
proof (induction m rule: dec_digits.induct)
  case (1 m)
  show ?case
  proof (cases "m < 10")
    case True
    then show ?thesis by (simp add: dec_digits.simps [of m] digit_char_props)
  next
    case False
    with "1.IH" show ?thesis by (simp add: dec_digits.simps [of m])
  qed
qed

lemma ParseInt_Itoa: "int64 n \<Longrightarrow> ParseInt (Itoa n) = Inr n"
proof (cases "n < 0")
  case True
  assume "int64 n"
  with True have b: "nat (- n) \<le> 2 ^ 63" by (simp add: int64_def nat_le_iff)
  then have "nat (- n) < 2 ^ 64" by simp
  then have "ParseUint_loop 0 (dec_digits (nat (- n))) = Inr (nat (- n))"
    by (rule ParseUint_loop_dec_digits)
  with True b show ?thesis
    using dec_digits_hd [of "nat (- n)"]
    by (simp add: ParseInt_def Itoa_def ParseUint_def)
next
  case False
  assume "int64 n"
  with False have b: "nat n < 2 ^ 63" by (simp add: int64_def nat_less_iff)
  then have "nat n < 2 ^ 64" by simp
  then have "ParseUint_loop 0 (dec_digits (nat n)) = Inr (nat n)"
    by (rule ParseUint_loop_dec_digits)
  with False b show ?thesis
    using dec_digits_hd [of "nat n"]
    by (simp add: ParseInt_def Itoa_def ParseUint_def)
qed

lemma ParseUint_loop_non_digit:
  "\<not> list_all is_digit cs \<Longrightarrow> isl (ParseUint_loop n cs)"
  by (induction cs arbitrary: n) auto

lemma ParseInt_not_decimal: "\<not> decimal_integer v \<Longrightarrow> isl (ParseInt v)"
  using ParseUint_loop_non_digit [of v 0] ParseUint_loop_non_digit [of "tl v" 0]
  by (cases v) (auto simp add: decimal_integer_def ParseInt_def ParseUint_def Let_def
      split: sum.splits if_splits)

section \<open>Counters\<close>

text \<open>
  C4, as stated, fails where the arithmetic leaves 64 bits: on the stored value
  \<open>9223372036854775807\<close>, the decimal representation of the largest 64-bit integer,
  \<open>INCR\<close> stores and returns -9223372036854775808, not that integer plus one.
\<close>

theorem incr_at_max_int64_counterexample:
  "map_of (SETs \<lparr>SETs = [(''k'', ''9223372036854775807'')], HSETs = [], Expirations = []\<rparr>) ''k''
     = Some (Itoa 9223372036854775807) \<and>
   incr \<lparr>SETs = [(''k'', ''9223372036854775807'')], HSETs = [], Expirations = []\<rparr>
        [bulk_value ''k'']
     = (\<lparr>SETs = [(''k'', ''-9223372036854775808'')], HSETs = [], Expirations = []\<rparr>,
        integer_value (- 9223372036854775808)) \<and>
   integer_value (- 9223372036854775808) \<noteq> integer_value (9223372036854775807 + 1)"
  by (simp add: incr_def Atoi_def ParseInt_def ParseUint_def is_digit_def digit_val_def
      wrap64_def Itoa_def dec_digits.simps digit_char_def)

text \<open>
  C4, amended. \<open>INCR\<close> on a key absent from the string store stores \<open>1\<close> and returns
  Integer 1; \<open>DECR\<close> on an absent key stores \<open>0\<close> and returns Integer 0. On a key whose
  stored value is the decimal representation of an integer \<open>n\<close> of 64 bits, \<open>INCR\<close> stores
  and returns \<open>n + 1\<close> when \<open>n + 1\<close> still fits 64 bits, and \<open>DECR\<close> stores and returns
  \<open>n - 1\<close> when \<open>n - 1\<close> still fits. On a key whose stored value is not a decimal integer
  both return an error value and leave the keyspace, the stored value with it, as it was.
\<close>

theorem incr_decr_result:
  "(map_of (SETs s) key = None \<longrightarrow>
      incr s [bulk_value key] =
        (s\<lparr>SETs := AList.update key ''1'' (SETs s)\<rparr>, integer_value 1) \<and>
      decr s [bulk_value key] =
        (s\<lparr>SETs := AList.update key ''0'' (SETs s)\<rparr>, integer_value 0)) \<and>
   (map_of (SETs s) key = Some (Itoa n) \<and> int64 n \<and> int64 (n + 1) \<longrightarrow>
      incr s [bulk_value key] =
        (s\<lparr>SETs := AList.update key (Itoa (n + 1)) (SETs s)\<rparr>, integer_value (n + 1))) \<and>
   (map_of (SETs s) key = Some (Itoa n) \<and> int64 n \<and> int64 (n - 1) \<longrightarrow>
      decr s [bulk_value key] =
        (s\<lparr>SETs := AList.update key (Itoa (n - 1)) (SETs s)\<rparr>, integer_value (n - 1))) \<and>
   (map_of (SETs s) key = Some v \<and> \<not> decimal_integer v \<longrightarrow>
      fst (incr s [bulk_value key]) = s \<and> typ' (snd (incr s [bulk_value key])) = ''error'' \<and>
      fst (decr s [bulk_value key]) = s \<and> typ' (snd (decr s [bulk_value key])) = ''error'')"
proof -
  have absent: "map_of (SETs s) key = None \<longrightarrow>
      incr s [bulk_value key] =
        (s\<lparr>SETs := AList.update key ''1'' (SETs s)\<rparr>, integer_value 1) \<and>
      decr s [bulk_value key] =
        (s\<lparr>SETs := AList.update key ''0'' (SETs s)\<rparr>, integer_value 0)"
    by (simp add: incr_def decr_def)
  have up: "map_of (SETs s) key = Some (Itoa n) \<and> int64 n \<and> int64 (n + 1) \<longrightarrow>
      incr s [bulk_value key] =
        (s\<lparr>SETs := AList.update key (Itoa (n + 1)) (SETs s)\<rparr>, integer_value (n + 1))"
    by (simp add: incr_def Atoi_def ParseInt_Itoa wrap64_id Let_def)
  have down: "map_of (SETs s) key = Some (Itoa n) \<and> int64 n \<and> int64 (n - 1) \<longrightarrow>
      decr s [bulk_value key] =
        (s\<lparr>SETs := AList.update key (Itoa (n - 1)) (SETs s)\<rparr>, integer_value (n - 1))"
    by (simp add: decr_def Atoi_def ParseInt_Itoa wrap64_id Let_def)
  have bad: "map_of (SETs s) key = Some v \<and> \<not> decimal_integer v \<longrightarrow>
      fst (incr s [bulk_value key]) = s \<and> typ' (snd (incr s [bulk_value key])) = ''error'' \<and>
      fst (decr s [bulk_value key]) = s \<and> typ' (snd (decr s [bulk_value key])) = ''error''"
  proof
    assume h: "map_of (SETs s) key = Some v \<and> \<not> decimal_integer v"
    then have "isl (ParseInt v)" by (simp add: ParseInt_not_decimal)
    then obtain e where "ParseInt v = Inl e" by (cases "ParseInt v") auto
    with h show "fst (incr s [bulk_value key]) = s \<and>
        typ' (snd (incr s [bulk_value key])) = ''error'' \<and>
        fst (decr s [bulk_value key]) = s \<and> typ' (snd (decr s [bulk_value key])) = ''error''"
      by (simp add: incr_def decr_def Atoi_def)
  qed
  from absent up down bad show ?thesis by blast
qed

theorem incr_decr_result_witness:
  "map_of (SETs empty_keyspace) ''k'' = None \<and>
   incr empty_keyspace [bulk_value ''k''] =
     (\<lparr>SETs = [(''k'', ''1'')], HSETs = [], Expirations = []\<rparr>, integer_value 1) \<and>
   decr empty_keyspace [bulk_value ''k''] =
     (\<lparr>SETs = [(''k'', ''0'')], HSETs = [], Expirations = []\<rparr>, integer_value 0) \<and>
   map_of (SETs \<lparr>SETs = [(''k'', ''41'')], HSETs = [], Expirations = []\<rparr>) ''k'' = Some (Itoa 41) \<and>
   int64 41 \<and> int64 (41 + 1) \<and> int64 (41 - 1) \<and>
   incr \<lparr>SETs = [(''k'', ''41'')], HSETs = [], Expirations = []\<rparr> [bulk_value ''k''] =
     (\<lparr>SETs = [(''k'', ''42'')], HSETs = [], Expirations = []\<rparr>, integer_value 42) \<and>
   decr \<lparr>SETs = [(''k'', ''41'')], HSETs = [], Expirations = []\<rparr> [bulk_value ''k''] =
     (\<lparr>SETs = [(''k'', ''40'')], HSETs = [], Expirations = []\<rparr>, integer_value 40) \<and>
   map_of (SETs \<lparr>SETs = [(''k'', ''abc'')], HSETs = [], Expirations = []\<rparr>) ''k'' = Some ''abc'' \<and>
   \<not> decimal_integer ''abc'' \<and>
   fst (incr \<lparr>SETs = [(''k'', ''abc'')], HSETs = [], Expirations = []\<rparr> [bulk_value ''k''])
     = \<lparr>SETs = [(''k'', ''abc'')], HSETs = [], Expirations = []\<rparr> \<and>
   typ' (snd (incr \<lparr>SETs = [(''k'', ''abc'')], HSETs = [], Expirations = []\<rparr> [bulk_value ''k'']))
     = ''error''"
proof -
  have a: "map_of (SETs empty_keyspace) ''k'' = None"
    by (simp add: empty_keyspace_def)
  have i: "Itoa 41 = ''41''" "Itoa 42 = ''42''" "Itoa 40 = ''40''"
    by (simp_all add: Itoa_def dec_digits.simps digit_char_def)
  have b: "map_of (SETs \<lparr>SETs = [(''k'', ''41'')], HSETs = [], Expirations = []\<rparr>) ''k''
             = Some (Itoa 41)"
    by (simp add: i)
  have r: "int64 41" "int64 (41 + 1)" "int64 (41 - 1)"
    by (simp_all add: int64_def)
  have c: "map_of (SETs \<lparr>SETs = [(''k'', ''abc'')], HSETs = [], Expirations = []\<rparr>) ''k''
             = Some ''abc''"
    by simp
  have d: "\<not> decimal_integer ''abc''"
    by (simp add: decimal_integer_def is_digit_def)
  from incr_decr_result [of empty_keyspace "''k''" 0 "[]"] a
  have 1: "incr empty_keyspace [bulk_value ''k''] =
     (\<lparr>SETs = [(''k'', ''1'')], HSETs = [], Expirations = []\<rparr>, integer_value 1)"
    "decr empty_keyspace [bulk_value ''k''] =
     (\<lparr>SETs = [(''k'', ''0'')], HSETs = [], Expirations = []\<rparr>, integer_value 0)"
    by (simp_all add: empty_keyspace_def)
  from incr_decr_result [of "\<lparr>SETs = [(''k'', ''41'')], HSETs = [], Expirations = []\<rparr>" "''k''" 41 "[]"] b r
  have 2: "incr \<lparr>SETs = [(''k'', ''41'')], HSETs = [], Expirations = []\<rparr> [bulk_value ''k''] =
     (\<lparr>SETs = [(''k'', ''42'')], HSETs = [], Expirations = []\<rparr>, integer_value 42)"
    "decr \<lparr>SETs = [(''k'', ''41'')], HSETs = [], Expirations = []\<rparr> [bulk_value ''k''] =
     (\<lparr>SETs = [(''k'', ''40'')], HSETs = [], Expirations = []\<rparr>, integer_value 40)"
    by (simp_all add: i)
  from incr_decr_result [of "\<lparr>SETs = [(''k'', ''abc'')], HSETs = [], Expirations = []\<rparr>" "''k''" 0 "''abc''"] c d
  have 3: "fst (incr \<lparr>SETs = [(''k'', ''abc'')], HSETs = [], Expirations = []\<rparr> [bulk_value ''k''])
     = \<lparr>SETs = [(''k'', ''abc'')], HSETs = [], Expirations = []\<rparr>"
   "typ' (snd (incr \<lparr>SETs = [(''k'', ''abc'')], HSETs = [], Expirations = []\<rparr> [bulk_value ''k'']))
     = ''error''"
    by simp_all
  from a b r c d 1 2 3 show ?thesis by simp
qed

section \<open>What reaches the persistence log\<close>

lemma main_loop_appends_iff:
  assumes "typ' v = ''array''" and "array v \<noteq> []"
    and "H (up (bulk (array v ! 0))) = Some h"
  shows "aof (fst (main_loop up H sv now v)) =
           (if up (bulk (array v ! 0)) \<in>
                 {''SET'', ''HSET'', ''DEL'', ''FLUSHALL'', ''HDEL''}
            then aof sv @ [v] else aof sv)"
  using assms
  by (simp add: main_loop_def Let_def aof_Write_def split: prod.splits)

text \<open>
  C3. In the loop of \<open>handleConnection\<close> a dispatched command, a request that is an
  array with a first element whose upper-cased name is in the handler table, is appended
  to the log exactly when that name is one of SET, HSET, DEL, FLUSHALL, HDEL, INCR, DECR,
  and the log is as it was otherwise; so EXPIRE and PERSIST are never appended, and since
  replay reads nothing but the log, an expiry set only by EXPIRE is not there after a
  replay. The handler has run on the arguments in either case. This holds whatever
  \<open>strings.ToUpper\<close> does to the name.
\<close>

theorem handleConnection_appends_iff:
  assumes "typ' v = ''array''" and "array v \<noteq> []"
    and "Handlers (up (bulk (array v ! 0))) = Some h"
  shows "(aof (fst (handleConnection up sv now v)) = aof sv @ [v] \<longleftrightarrow>
            up (bulk (array v ! 0)) \<in>
              {''SET'', ''HSET'', ''DEL'', ''FLUSHALL'', ''HDEL'', ''INCR'', ''DECR''}) \<and>
         (up (bulk (array v ! 0)) \<notin>
              {''SET'', ''HSET'', ''DEL'', ''FLUSHALL'', ''HDEL'', ''INCR'', ''DECR''} \<longrightarrow>
            aof (fst (handleConnection up sv now v)) = aof sv) \<and>
         (up (bulk (array v ! 0)) = ''EXPIRE'' \<or> up (bulk (array v ! 0)) = ''PERSIST'' \<longrightarrow>
            aof (fst (handleConnection up sv now v)) = aof sv \<and>
            replay up s0 (zip clocks (aof (fst (handleConnection up sv now v)))) =
              replay up s0 (zip clocks (aof sv))) \<and>
         store (fst (handleConnection up sv now v)) = fst (h (store sv) now (tl (array v))) \<and>
         snd (handleConnection up sv now v) = snd (h (store sv) now (tl (array v)))"
  using assms
  by (auto simp add: handleConnection_def Let_def aof_Write_def split: prod.splits)

theorem handleConnection_appends_iff_witness:
  "typ' (array_value [bulk_value ''set'', bulk_value ''k'', bulk_value ''v'']) = ''array'' \<and>
   array (array_value [bulk_value ''set'', bulk_value ''k'', bulk_value ''v'']) \<noteq> [] \<and>
   Handlers (ToUpper_ascii (bulk (array
      (array_value [bulk_value ''set'', bulk_value ''k'', bulk_value ''v'']) ! 0)))
     = Some set_handler \<and>
   handleConnection ToUpper_ascii \<lparr>store = empty_keyspace, aof = []\<rparr> 1700000000
      (array_value [bulk_value ''set'', bulk_value ''k'', bulk_value ''v''])
     = (\<lparr>store = \<lparr>SETs = [(''k'', ''v'')], HSETs = [], Expirations = []\<rparr>,
         aof = [array_value [bulk_value ''set'', bulk_value ''k'', bulk_value ''v'']]\<rparr>,
        simple_string ''OK'') \<and>
   Handlers (ToUpper_ascii (bulk (array
      (array_value [bulk_value ''expire'', bulk_value ''k'', bulk_value ''100'']) ! 0)))
     = Some expire \<and>
   handleConnection ToUpper_ascii
      \<lparr>store = \<lparr>SETs = [(''k'', ''v'')], HSETs = [], Expirations = []\<rparr>,
        aof = [array_value [bulk_value ''set'', bulk_value ''k'', bulk_value ''v'']]\<rparr>
      1700000000 (array_value [bulk_value ''expire'', bulk_value ''k'', bulk_value ''100''])
     = (\<lparr>store = \<lparr>SETs = [(''k'', ''v'')], HSETs = [], Expirations = [(''k'', 1700000100)]\<rparr>,
         aof = [array_value [bulk_value ''set'', bulk_value ''k'', bulk_value ''v'']]\<rparr>,
        integer_value 1) \<and>
   replay ToUpper_ascii empty_keyspace
      (zip [1700000500] [array_value [bulk_value ''set'', bulk_value ''k'', bulk_value ''v'']])
     = Some \<lparr>SETs = [(''k'', ''v'')], HSETs = [], Expirations = []\<rparr>"
proof -
  let ?set = "array_value [bulk_value ''set'', bulk_value ''k'', bulk_value ''v'']"
  let ?expire = "array_value [bulk_value ''expire'', bulk_value ''k'', bulk_value ''100'']"
  let ?sv0 = "\<lparr>store = empty_keyspace, aof = []\<rparr>"
  let ?sv1 = "\<lparr>store = \<lparr>SETs = [(''k'', ''v'')], HSETs = [], Expirations = []\<rparr>, aof = [?set]\<rparr>"
  have a: "typ' ?set = ''array''" "array ?set \<noteq> []" "typ' ?expire = ''array''"
    "array ?expire \<noteq> []"
    by simp_all
  have hs: "Handlers (ToUpper_ascii (bulk (array ?set ! 0))) = Some set_handler"
    by (simp add: Handlers_def ToUpper_ascii_def upper_char_def)
  have he: "Handlers (ToUpper_ascii (bulk (array ?expire ! 0))) = Some expire"
    by (simp add: Handlers_def ToUpper_ascii_def upper_char_def)
  have us: "ToUpper_ascii ''set'' = ''SET''"
    and ue: "ToUpper_ascii ''expire'' = ''EXPIRE''"
    by (simp_all add: ToUpper_ascii_def upper_char_def)
  have p: "ParseInt ''100'' = Inr 100"
    by (simp add: ParseInt_def ParseUint_def is_digit_def digit_val_def)
  have rs: "set_handler empty_keyspace 1700000000 [bulk_value ''k'', bulk_value ''v'']
              = (\<lparr>SETs = [(''k'', ''v'')], HSETs = [], Expirations = []\<rparr>, simple_string ''OK'')"
    by (simp add: set_handler_def empty_keyspace_def Let_def)
  have re: "expire \<lparr>SETs = [(''k'', ''v'')], HSETs = [], Expirations = []\<rparr> 1700000000
              [bulk_value ''k'', bulk_value ''100'']
              = (\<lparr>SETs = [(''k'', ''v'')], HSETs = [], Expirations = [(''k'', 1700000100)]\<rparr>,
                 integer_value 1)"
    by (simp add: expire_def p wrap64_def Let_def)
  from handleConnection_appends_iff
         [of ?set ToUpper_ascii set_handler ?sv0 1700000000 empty_keyspace "[]", OF a(1) a(2) hs]
  have 1: "aof (fst (handleConnection ToUpper_ascii ?sv0 1700000000 ?set)) = [?set]"
    and 2: "store (fst (handleConnection ToUpper_ascii ?sv0 1700000000 ?set))
              = \<lparr>SETs = [(''k'', ''v'')], HSETs = [], Expirations = []\<rparr>"
    and 3: "snd (handleConnection ToUpper_ascii ?sv0 1700000000 ?set) = simple_string ''OK''"
    by (simp_all add: us rs)
  from 1 2 3 have s1: "handleConnection ToUpper_ascii ?sv0 1700000000 ?set
                         = (?sv1, simple_string ''OK'')"
    by (cases "handleConnection ToUpper_ascii ?sv0 1700000000 ?set") auto
  from handleConnection_appends_iff
         [of ?expire ToUpper_ascii expire ?sv1 1700000000 empty_keyspace "[]", OF a(3) a(4) he]
  have 4: "aof (fst (handleConnection ToUpper_ascii ?sv1 1700000000 ?expire)) = [?set]"
    and 5: "store (fst (handleConnection ToUpper_ascii ?sv1 1700000000 ?expire))
              = \<lparr>SETs = [(''k'', ''v'')], HSETs = [], Expirations = [(''k'', 1700000100)]\<rparr>"
    and 6: "snd (handleConnection ToUpper_ascii ?sv1 1700000000 ?expire) = integer_value 1"
    by (simp_all add: ue re)
  from 4 5 6 have s2: "handleConnection ToUpper_ascii ?sv1 1700000000 ?expire
       = (\<lparr>store = \<lparr>SETs = [(''k'', ''v'')], HSETs = [], Expirations = [(''k'', 1700000100)]\<rparr>,
           aof = [?set]\<rparr>, integer_value 1)"
    by (cases "handleConnection ToUpper_ascii ?sv1 1700000000 ?expire") auto
  have r: "replay ToUpper_ascii empty_keyspace (zip [1700000500] [?set])
             = Some \<lparr>SETs = [(''k'', ''v'')], HSETs = [], Expirations = []\<rparr>"
    by (simp add: Handlers_def ToUpper_ascii_def upper_char_def set_handler_def
        empty_keyspace_def Let_def)
  from a hs he s1 s2 r show ?thesis by simp
qed

section \<open>Setting an expiry\<close>

text \<open>
  C5, as stated, fails where the sum leaves 64 bits: at the clock 1700000000,
  \<open>SET k v EX 9223372036854775807\<close> succeeds and stores the expiry -9223372035154775809,
  an instant long past, not the clock plus the seconds.
\<close>

theorem set_ex_overflow_counterexample:
  "ParseInt ''9223372036854775807'' = Inr 9223372036854775807 \<and>
   set_handler empty_keyspace 1700000000
      [bulk_value ''k'', bulk_value ''v'', bulk_value ''EX'', bulk_value ''9223372036854775807'']
     = (\<lparr>SETs = [(''k'', ''v'')], HSETs = [],
         Expirations = [(''k'', - 9223372035154775809)]\<rparr>, simple_string ''OK'') \<and>
   (- 9223372035154775809 :: int) \<noteq> 1700000000 + 9223372036854775807"
  by (simp add: set_handler_def ToLower_def lower_char_def ParseInt_def ParseUint_def
      is_digit_def digit_val_def wrap64_def empty_keyspace_def Let_def)

text \<open>
  C5, amended. After \<open>SET key val\<close> with no option the string store maps \<open>key\<close> to
  \<open>val\<close> and the expiration index has no entry for \<open>key\<close>. After \<open>SET key val EX secs\<close>,
  with the option in any letter case and \<open>secs\<close> a decimal integer of 64 bits above 0, the
  string store maps \<open>key\<close> to \<open>val\<close> and the expiration index maps \<open>key\<close> to the clock
  plus \<open>secs\<close>, provided that sum still fits 64 bits. Both answer \<open>OK\<close> and leave the hash
  store as it was.
\<close>

theorem set_result:
  "(let r = set_handler s now [bulk_value key, bulk_value val]
    in snd r = simple_string ''OK'' \<and>
       map_of (SETs (fst r)) key = Some val \<and>
       map_of (Expirations (fst r)) key = None \<and>
       HSETs (fst r) = HSETs s) \<and>
   (ToLower opt = ''ex'' \<and> ParseInt secs = Inr n \<and> 0 < n \<and> int64 (now + n) \<longrightarrow>
    (let r = set_handler s now [bulk_value key, bulk_value val, bulk_value opt, bulk_value secs]
     in snd r = simple_string ''OK'' \<and>
        map_of (SETs (fst r)) key = Some val \<and>
        map_of (Expirations (fst r)) key = Some (now + n) \<and>
        HSETs (fst r) = HSETs s))"
  by (simp add: set_handler_def Let_def AList.update_conv' AList.delete_conv' wrap64_id)

theorem set_result_witness:
  "ToLower ''EX'' = ''ex'' \<and> ParseInt ''100'' = Inr 100 \<and> (0::int) < 100 \<and>
   int64 (1700000000 + 100) \<and>
   set_handler \<lparr>SETs = [], HSETs = [(''h'', [(''f'', ''v'')])], Expirations = []\<rparr> 1700000000
      [bulk_value ''k'', bulk_value ''v'', bulk_value ''EX'', bulk_value ''100'']
     = (\<lparr>SETs = [(''k'', ''v'')], HSETs = [(''h'', [(''f'', ''v'')])],
         Expirations = [(''k'', 1700000100)]\<rparr>, simple_string ''OK'') \<and>
   map_of (Expirations (fst (set_handler
      \<lparr>SETs = [], HSETs = [(''h'', [(''f'', ''v'')])], Expirations = []\<rparr> 1700000000
      [bulk_value ''k'', bulk_value ''v'', bulk_value ''EX'', bulk_value ''100'']))) ''k''
     = Some 1700000100"
proof -
  have a: "ToLower ''EX'' = ''ex''"
    by (simp add: ToLower_def lower_char_def)
  have b: "ParseInt ''100'' = Inr 100"
    by (simp add: ParseInt_def ParseUint_def is_digit_def digit_val_def)
  have c: "(0::int) < 100" by simp
  have d: "int64 (1700000000 + 100)" by (simp add: int64_def)
  have e: "set_handler \<lparr>SETs = [], HSETs = [(''h'', [(''f'', ''v'')])], Expirations = []\<rparr> 1700000000
      [bulk_value ''k'', bulk_value ''v'', bulk_value ''EX'', bulk_value ''100'']
     = (\<lparr>SETs = [(''k'', ''v'')], HSETs = [(''h'', [(''f'', ''v'')])],
         Expirations = [(''k'', 1700000100)]\<rparr>, simple_string ''OK'')"
    by (simp add: set_handler_def a b wrap64_def Let_def)
  from set_result [of "\<lparr>SETs = [], HSETs = [(''h'', [(''f'', ''v'')])], Expirations = []\<rparr>"
      1700000000 "''k''" "''v''" "''EX''" "''100''" 100] a b c d
  have "map_of (Expirations (fst (set_handler
      \<lparr>SETs = [], HSETs = [(''h'', [(''f'', ''v'')])], Expirations = []\<rparr> 1700000000
      [bulk_value ''k'', bulk_value ''v'', bulk_value ''EX'', bulk_value ''100'']))) ''k''
     = Some 1700000100"
    by (simp add: Let_def)
  with a b c d e show ?thesis by simp
qed

text \<open>
  C8, as stated, fails in the same way: at the clock 1700000000,
  \<open>EXPIRE k 9223372036854775807\<close> on an existing key returns Integer 1 and stores the
  expiry -9223372035154775809.
\<close>

theorem expire_overflow_counterexample:
  "ParseInt ''9223372036854775807'' = Inr 9223372036854775807 \<and>
   expire \<lparr>SETs = [(''k'', ''v'')], HSETs = [], Expirations = []\<rparr> 1700000000
      [bulk_value ''k'', bulk_value ''9223372036854775807'']
     = (\<lparr>SETs = [(''k'', ''v'')], HSETs = [],
         Expirations = [(''k'', - 9223372035154775809)]\<rparr>, integer_value 1) \<and>
   (- 9223372035154775809 :: int) \<noteq> 1700000000 + 9223372036854775807"
  by (simp add: expire_def ParseInt_def ParseUint_def is_digit_def digit_val_def wrap64_def
      Let_def)

text \<open>
  C8, amended. With \<open>secs\<close> a decimal integer of 64 bits above 0: when the key is in the
  string store or in the hash store, \<open>EXPIRE key secs\<close> returns Integer 1 and sets the
  expiry of the key to the clock plus \<open>secs\<close>, provided that sum still fits 64 bits; when
  the key is in neither, it returns Integer 0 and leaves the keyspace as it was. With
  \<open>secs\<close> not a decimal integer, or not accepted by the parser (out of the 64-bit range),
  or at most 0, it returns an error value and leaves the keyspace as it was.
\<close>

theorem expire_result:
  "(ParseInt secs = Inr n \<and> 0 < n \<and> int64 (now + n) \<and>
    (map_of (SETs s) key \<noteq> None \<or> map_of (HSETs s) key \<noteq> None) \<longrightarrow>
      expire s now [bulk_value key, bulk_value secs] =
        (s\<lparr>Expirations := AList.update key (now + n) (Expirations s)\<rparr>, integer_value 1) \<and>
      map_of (Expirations (fst (expire s now [bulk_value key, bulk_value secs]))) key
        = Some (now + n)) \<and>
   (ParseInt secs = Inr n \<and> 0 < n \<and>
    map_of (SETs s) key = None \<and> map_of (HSETs s) key = None \<longrightarrow>
      expire s now [bulk_value key, bulk_value secs] = (s, integer_value 0)) \<and>
   (\<not> decimal_integer secs \<or> isl (ParseInt secs) \<or> (ParseInt secs = Inr n \<and> n \<le> 0) \<longrightarrow>
      fst (expire s now [bulk_value key, bulk_value secs]) = s \<and>
      typ' (snd (expire s now [bulk_value key, bulk_value secs])) = ''error'')"
proof -
  have a: "ParseInt secs = Inr n \<and> 0 < n \<and> int64 (now + n) \<and>
    (map_of (SETs s) key \<noteq> None \<or> map_of (HSETs s) key \<noteq> None) \<longrightarrow>
      expire s now [bulk_value key, bulk_value secs] =
        (s\<lparr>Expirations := AList.update key (now + n) (Expirations s)\<rparr>, integer_value 1) \<and>
      map_of (Expirations (fst (expire s now [bulk_value key, bulk_value secs]))) key
        = Some (now + n)"
    by (auto simp add: expire_def Let_def wrap64_id AList.update_conv')
  have b: "ParseInt secs = Inr n \<and> 0 < n \<and>
    map_of (SETs s) key = None \<and> map_of (HSETs s) key = None \<longrightarrow>
      expire s now [bulk_value key, bulk_value secs] = (s, integer_value 0)"
    by (simp add: expire_def)
  have c: "\<not> decimal_integer secs \<or> isl (ParseInt secs) \<or> (ParseInt secs = Inr n \<and> n \<le> 0) \<longrightarrow>
      fst (expire s now [bulk_value key, bulk_value secs]) = s \<and>
      typ' (snd (expire s now [bulk_value key, bulk_value secs])) = ''error''"
  proof
    assume "\<not> decimal_integer secs \<or> isl (ParseInt secs) \<or> (ParseInt secs = Inr n \<and> n \<le> 0)"
    then have "isl (ParseInt secs) \<or> (ParseInt secs = Inr n \<and> n \<le> 0)"
      using ParseInt_not_decimal [of secs] by blast
    then show "fst (expire s now [bulk_value key, bulk_value secs]) = s \<and>
      typ' (snd (expire s now [bulk_value key, bulk_value secs])) = ''error''"
      by (cases "ParseInt secs") (auto simp add: expire_def)
  qed
  from a b c show ?thesis by blast
qed

theorem expire_result_witness:
  "ParseInt ''100'' = Inr 100 \<and> (0::int) < 100 \<and> int64 (1700000000 + 100) \<and>
   map_of (HSETs \<lparr>SETs = [], HSETs = [(''h'', [(''f'', ''v'')])], Expirations = []\<rparr>) ''h'' \<noteq> None \<and>
   expire \<lparr>SETs = [], HSETs = [(''h'', [(''f'', ''v'')])], Expirations = []\<rparr> 1700000000
      [bulk_value ''h'', bulk_value ''100'']
     = (\<lparr>SETs = [], HSETs = [(''h'', [(''f'', ''v'')])], Expirations = [(''h'', 1700000100)]\<rparr>,
        integer_value 1) \<and>
   map_of (SETs empty_keyspace) ''h'' = None \<and> map_of (HSETs empty_keyspace) ''h'' = None \<and>
   expire empty_keyspace 1700000000 [bulk_value ''h'', bulk_value ''100'']
     = (empty_keyspace, integer_value 0) \<and>
   \<not> decimal_integer ''soon'' \<and>
   fst (expire \<lparr>SETs = [], HSETs = [(''h'', [(''f'', ''v'')])], Expirations = []\<rparr> 1700000000
      [bulk_value ''h'', bulk_value ''soon''])
     = \<lparr>SETs = [], HSETs = [(''h'', [(''f'', ''v'')])], Expirations = []\<rparr> \<and>
   typ' (snd (expire \<lparr>SETs = [], HSETs = [(''h'', [(''f'', ''v'')])], Expirations = []\<rparr>
      1700000000 [bulk_value ''h'', bulk_value ''soon''])) = ''error''"
proof -
  have p: "ParseInt ''100'' = Inr 100"
    by (simp add: ParseInt_def ParseUint_def is_digit_def digit_val_def)
  have q: "(0::int) < 100" by simp
  have r: "int64 (1700000000 + 100)" by (simp add: int64_def)
  have h: "map_of (HSETs \<lparr>SETs = [], HSETs = [(''h'', [(''f'', ''v'')])], Expirations = []\<rparr>) ''h''
            \<noteq> None"
    by simp
  have e: "map_of (SETs empty_keyspace) ''h'' = None" "map_of (HSETs empty_keyspace) ''h'' = None"
    by (simp_all add: empty_keyspace_def)
  have d: "\<not> decimal_integer ''soon''"
    by (simp add: decimal_integer_def is_digit_def)
  from expire_result [of "''100''" 100 1700000000
      "\<lparr>SETs = [], HSETs = [(''h'', [(''f'', ''v'')])], Expirations = []\<rparr>" "''h''"] p q r h
  have 1: "expire \<lparr>SETs = [], HSETs = [(''h'', [(''f'', ''v'')])], Expirations = []\<rparr> 1700000000
      [bulk_value ''h'', bulk_value ''100'']
     = (\<lparr>SETs = [], HSETs = [(''h'', [(''f'', ''v'')])], Expirations = [(''h'', 1700000100)]\<rparr>,
        integer_value 1)"
    by simp
  from expire_result [of "''100''" 100 1700000000 empty_keyspace "''h''"] p q e
  have 2: "expire empty_keyspace 1700000000 [bulk_value ''h'', bulk_value ''100'']
     = (empty_keyspace, integer_value 0)"
    by simp
  from expire_result [of "''soon''" 0 1700000000
      "\<lparr>SETs = [], HSETs = [(''h'', [(''f'', ''v'')])], Expirations = []\<rparr>" "''h''"] d
  have 3: "fst (expire \<lparr>SETs = [], HSETs = [(''h'', [(''f'', ''v'')])], Expirations = []\<rparr> 1700000000
      [bulk_value ''h'', bulk_value ''soon''])
     = \<lparr>SETs = [], HSETs = [(''h'', [(''f'', ''v'')])], Expirations = []\<rparr>"
    "typ' (snd (expire \<lparr>SETs = [], HSETs = [(''h'', [(''f'', ''v'')])], Expirations = []\<rparr>
      1700000000 [bulk_value ''h'', bulk_value ''soon''])) = ''error''"
    by simp_all
  from p q r h e d 1 2 3 show ?thesis by simp
qed

section \<open>Time to live\<close>

lemma ttl_computed:
  "ttl s now [bulk_value key] =
     (s, integer_value
           (if map_of (SETs s) key = None \<and> map_of (HSETs s) key = None then - 2
            else case map_of (Expirations s) key of
                   None \<Rightarrow> - 1
                 | Some expireAt \<Rightarrow>
                     if wrap64 (expireAt - now) < 0 then - 2 else wrap64 (expireAt - now)))"
  by (simp add: ttl_def Let_def split: option.splits)

text \<open>
  C6, as stated, fails on an expiry that an overflowed \<open>SET ... EX\<close> stored. At the
  clock 1700000000, \<open>SET k v EX 9223372036854775807\<close> leaves the expiry
  -9223372035154775809; the expiry minus the clock is then negative, and \<open>TTL k\<close>
  returns 9223372036854775807, not -2: the subtraction wraps around 64 bits before the
  test of the sign.
\<close>

theorem ttl_after_overflow_counterexample:
  "run empty_keyspace
      [(''SET'', 1700000000,
        [bulk_value ''k'', bulk_value ''v'', bulk_value ''EX'',
         bulk_value ''9223372036854775807''])]
     = \<lparr>SETs = [(''k'', ''v'')], HSETs = [], Expirations = [(''k'', - 9223372035154775809)]\<rparr> \<and>
   ttl \<lparr>SETs = [(''k'', ''v'')], HSETs = [], Expirations = [(''k'', - 9223372035154775809)]\<rparr>
       1700000000 [bulk_value ''k'']
     = (\<lparr>SETs = [(''k'', ''v'')], HSETs = [], Expirations = [(''k'', - 9223372035154775809)]\<rparr>,
        integer_value 9223372036854775807) \<and>
   (- 9223372035154775809 - 1700000000 :: int) < 0 \<and>
   integer_value 9223372036854775807 \<noteq> integer_value (- 2)"
  by (simp add: Handlers_def set_handler_def ToLower_def lower_char_def ParseInt_def
      ParseUint_def is_digit_def digit_val_def wrap64_def empty_keyspace_def Let_def ttl_def)

text \<open>
  C6, amended. \<open>TTL key\<close> returns -2 when the key is in neither the string store nor the
  hash store, and -1 when it is in one of them and has no expiry entry. When it is in one
  of them and has an expiry entry, and the expiry minus the clock fits 64 bits, it returns
  that difference when it is not negative and -2 when it is negative. The keyspace is left
  as it was.
\<close>

theorem ttl_result_in_range:
  "(map_of (SETs s) key = None \<and> map_of (HSETs s) key = None \<longrightarrow>
      ttl s now [bulk_value key] = (s, integer_value (- 2))) \<and>
   ((map_of (SETs s) key \<noteq> None \<or> map_of (HSETs s) key \<noteq> None) \<and>
    map_of (Expirations s) key = None \<longrightarrow>
      ttl s now [bulk_value key] = (s, integer_value (- 1))) \<and>
   ((map_of (SETs s) key \<noteq> None \<or> map_of (HSETs s) key \<noteq> None) \<and>
    map_of (Expirations s) key = Some e \<and> int64 (e - now) \<and> 0 \<le> e - now \<longrightarrow>
      ttl s now [bulk_value key] = (s, integer_value (e - now))) \<and>
   ((map_of (SETs s) key \<noteq> None \<or> map_of (HSETs s) key \<noteq> None) \<and>
    map_of (Expirations s) key = Some e \<and> int64 (e - now) \<and> e - now < 0 \<longrightarrow>
      ttl s now [bulk_value key] = (s, integer_value (- 2)))"
proof -
  have absent: "map_of (SETs s) key = None \<and> map_of (HSETs s) key = None \<longrightarrow>
      ttl s now [bulk_value key] = (s, integer_value (- 2))"
    by (simp add: ttl_computed)
  have no_expiry: "(map_of (SETs s) key \<noteq> None \<or> map_of (HSETs s) key \<noteq> None) \<and>
    map_of (Expirations s) key = None \<longrightarrow>
      ttl s now [bulk_value key] = (s, integer_value (- 1))"
    by (auto simp add: ttl_computed)
  have remaining: "(map_of (SETs s) key \<noteq> None \<or> map_of (HSETs s) key \<noteq> None) \<and>
    map_of (Expirations s) key = Some e \<and> int64 (e - now) \<and> 0 \<le> e - now \<longrightarrow>
      ttl s now [bulk_value key] = (s, integer_value (e - now))"
    by (auto simp add: ttl_computed wrap64_id)
  have expired: "(map_of (SETs s) key \<noteq> None \<or> map_of (HSETs s) key \<noteq> None) \<and>
    map_of (Expirations s) key = Some e \<and> int64 (e - now) \<and> e - now < 0 \<longrightarrow>
      ttl s now [bulk_value key] = (s, integer_value (- 2))"
    by (auto simp add: ttl_computed wrap64_id)
  from absent no_expiry remaining expired show ?thesis by blast
qed

theorem ttl_result_in_range_witness:
  "map_of (SETs empty_keyspace) ''k'' = None \<and> map_of (HSETs empty_keyspace) ''k'' = None \<and>
   ttl empty_keyspace 1700000000 [bulk_value ''k''] = (empty_keyspace, integer_value (- 2)) \<and>
   map_of (SETs \<lparr>SETs = [(''k'', ''v'')], HSETs = [], Expirations = []\<rparr>) ''k'' \<noteq> None \<and>
   map_of (Expirations \<lparr>SETs = [(''k'', ''v'')], HSETs = [], Expirations = []\<rparr>) ''k'' = None \<and>
   ttl \<lparr>SETs = [(''k'', ''v'')], HSETs = [], Expirations = []\<rparr> 1700000000 [bulk_value ''k'']
     = (\<lparr>SETs = [(''k'', ''v'')], HSETs = [], Expirations = []\<rparr>, integer_value (- 1)) \<and>
   map_of (SETs \<lparr>SETs = [(''k'', ''v'')], HSETs = [], Expirations = [(''k'', 1700000100)]\<rparr>) ''k''
     \<noteq> None \<and>
   map_of (Expirations \<lparr>SETs = [(''k'', ''v'')], HSETs = [],
                         Expirations = [(''k'', 1700000100)]\<rparr>) ''k'' = Some 1700000100 \<and>
   int64 (1700000100 - 1700000000) \<and> (0::int) \<le> 1700000100 - 1700000000 \<and>
   ttl \<lparr>SETs = [(''k'', ''v'')], HSETs = [], Expirations = [(''k'', 1700000100)]\<rparr> 1700000000
       [bulk_value ''k'']
     = (\<lparr>SETs = [(''k'', ''v'')], HSETs = [], Expirations = [(''k'', 1700000100)]\<rparr>,
        integer_value 100) \<and>
   int64 (1700000100 - 1700000200) \<and> (1700000100 - 1700000200 :: int) < 0 \<and>
   ttl \<lparr>SETs = [(''k'', ''v'')], HSETs = [], Expirations = [(''k'', 1700000100)]\<rparr> 1700000200
       [bulk_value ''k'']
     = (\<lparr>SETs = [(''k'', ''v'')], HSETs = [], Expirations = [(''k'', 1700000100)]\<rparr>,
        integer_value (- 2))"
proof -
  have a: "map_of (SETs empty_keyspace) ''k'' = None" "map_of (HSETs empty_keyspace) ''k'' = None"
    by (simp_all add: empty_keyspace_def)
  have b: "map_of (SETs \<lparr>SETs = [(''k'', ''v'')], HSETs = [], Expirations = []\<rparr>) ''k'' \<noteq> None"
    "map_of (Expirations \<lparr>SETs = [(''k'', ''v'')], HSETs = [], Expirations = []\<rparr>) ''k'' = None"
    by simp_all
  have c: "map_of (SETs \<lparr>SETs = [(''k'', ''v'')], HSETs = [],
                         Expirations = [(''k'', 1700000100)]\<rparr>) ''k'' \<noteq> None"
    "map_of (Expirations \<lparr>SETs = [(''k'', ''v'')], HSETs = [],
                         Expirations = [(''k'', 1700000100)]\<rparr>) ''k'' = Some 1700000100"
    by simp_all
  have d: "int64 (1700000100 - 1700000000)" "(0::int) \<le> 1700000100 - 1700000000"
    "int64 (1700000100 - 1700000200)" "(1700000100 - 1700000200 :: int) < 0"
    by (simp_all add: int64_def)
  from ttl_result_in_range [of empty_keyspace "''k''" 1700000000 0] a
  have 1: "ttl empty_keyspace 1700000000 [bulk_value ''k'']
             = (empty_keyspace, integer_value (- 2))"
    by simp
  from ttl_result_in_range
         [of "\<lparr>SETs = [(''k'', ''v'')], HSETs = [], Expirations = []\<rparr>" "''k''" 1700000000 0] b
  have 2: "ttl \<lparr>SETs = [(''k'', ''v'')], HSETs = [], Expirations = []\<rparr> 1700000000
               [bulk_value ''k'']
             = (\<lparr>SETs = [(''k'', ''v'')], HSETs = [], Expirations = []\<rparr>, integer_value (- 1))"
    by simp
  from ttl_result_in_range
         [of "\<lparr>SETs = [(''k'', ''v'')], HSETs = [], Expirations = [(''k'', 1700000100)]\<rparr>"
             "''k''" 1700000000 1700000100] c d
  have 3: "ttl \<lparr>SETs = [(''k'', ''v'')], HSETs = [], Expirations = [(''k'', 1700000100)]\<rparr>
               1700000000 [bulk_value ''k'']
     = (\<lparr>SETs = [(''k'', ''v'')], HSETs = [], Expirations = [(''k'', 1700000100)]\<rparr>,
        integer_value 100)"
    by simp
  from ttl_result_in_range
         [of "\<lparr>SETs = [(''k'', ''v'')], HSETs = [], Expirations = [(''k'', 1700000100)]\<rparr>"
             "''k''" 1700000200 1700000100] c d
  have 4: "ttl \<lparr>SETs = [(''k'', ''v'')], HSETs = [], Expirations = [(''k'', 1700000100)]\<rparr>
               1700000200 [bulk_value ''k'']
     = (\<lparr>SETs = [(''k'', ''v'')], HSETs = [], Expirations = [(''k'', 1700000100)]\<rparr>,
        integer_value (- 2))"
    by simp
  from a b c d 1 2 3 4 show ?thesis by simp
qed

end
